theory Spec2Isabelle
  imports Complex_Main
begin

section \<open>NMR T2 decay model: the computational core of T2dist.py and nmr_T2decay_model.py\<close>

text \<open>
  Both scripts define the same four helper functions (\<open>calculate_surface_area\<close>,
  \<open>calculate_volume\<close>, \<open>calculate_surface_to_volume_ratio\<close>, \<open>calculate_t2\<close>), parse the
  comma-separated T2 list in the same way and build the Mt lists with the same list
  comprehension; they differ in widget keys and in the number of radii. One model covers both.

  Exceptions are values: a computation that can raise returns \<open>py_error + 'a\<close>, with
  \<open>Inl\<close> the exception. A call of \<open>st.error\<close> is an entry in the list of messages that the
  function returns beside its value.
\<close>

subsection \<open>Exceptions\<close>

datatype py_error = ZeroDivisionError | ValueError | OverflowError

definition and_then :: "'e + 'a \<Rightarrow> ('a \<Rightarrow> 'e + 'b) \<Rightarrow> 'e + 'b" where
  "and_then r f = (case r of Inl e \<Rightarrow> Inl e | Inr v \<Rightarrow> f v)"

subsection \<open>Python floats\<close>

text \<open>
  A Python float is an IEEE double: a finite number, an infinity or \<open>nan\<close>. The model keeps
  the range of the doubles and leaves out their rounding: the result of an operation whose
  exact value is \<open>x\<close> is \<open>fl x\<close>, which is an infinity when \<open>x\<close> rounds beyond the largest
  double (from \<open>2^1024 - 2^970\<close> on), zero when \<open>x\<close> rounds to zero (up to \<open>2^-1075\<close>), and
  \<open>x\<close> itself otherwise. So overflow, underflow to zero, the infinities, \<open>nan\<close> and every
  exception are those of the code, and a finite non-zero result is the exact value where the
  code has the nearest double. The two zeros \<open>0.0\<close> and \<open>-0.0\<close> are one value, as they are
  for \<open>==\<close>; no computation of the scripts tells them apart (only the sign shown when a
  value is printed), since Python raises on every division by either. An \<open>int\<close> operand (the literals, the integer unit factors, the \<open>0\<close> of an
  \<open>else\<close> branch) is the float of the same value.
\<close>

datatype py_float = Finite real | PosInf | NegInf | NaN

definition overflow_threshold :: real where
  "overflow_threshold = 2 ^ 1024 - 2 ^ 970"

definition underflow_threshold :: real where
  "underflow_threshold = 1 / 2 ^ 1075"

definition fl :: "real \<Rightarrow> py_float" where
  "fl x = (if overflow_threshold \<le> x then PosInf
           else if x \<le> - overflow_threshold then NegInf
           else if \<bar>x\<bar> \<le> underflow_threshold then Finite 0
           else Finite x)"

fun py_neg :: "py_float \<Rightarrow> py_float" where
  "py_neg (Finite x) = Finite (- x)"
| "py_neg PosInf = NegInf"
| "py_neg NegInf = PosInf"
| "py_neg NaN = NaN"

fun py_mul :: "py_float \<Rightarrow> py_float \<Rightarrow> py_float" where
  "py_mul NaN b = NaN"
| "py_mul a NaN = NaN"
| "py_mul (Finite x) (Finite y) = fl (x * y)"
| "py_mul (Finite x) PosInf = (if x = 0 then NaN else if x < 0 then NegInf else PosInf)"
| "py_mul (Finite x) NegInf = (if x = 0 then NaN else if x < 0 then PosInf else NegInf)"
| "py_mul PosInf (Finite y) = (if y = 0 then NaN else if y < 0 then NegInf else PosInf)"
| "py_mul NegInf (Finite y) = (if y = 0 then NaN else if y < 0 then PosInf else NegInf)"
| "py_mul PosInf PosInf = PosInf"
| "py_mul PosInf NegInf = NegInf"
| "py_mul NegInf PosInf = NegInf"
| "py_mul NegInf NegInf = PosInf"

text \<open>
  \<open>a / b\<close> raises \<open>ZeroDivisionError\<close> whenever the divisor is zero, whatever the dividend.
\<close>

definition py_truediv :: "py_float \<Rightarrow> py_float \<Rightarrow> py_error + py_float" where
  "py_truediv a b =
     (case b of
        Finite y \<Rightarrow>
          if y = 0 then Inl ZeroDivisionError
          else (case a of
                  Finite x \<Rightarrow> Inr (fl (x / y))
                | PosInf \<Rightarrow> Inr (if y < 0 then NegInf else PosInf)
                | NegInf \<Rightarrow> Inr (if y < 0 then PosInf else NegInf)
                | NaN \<Rightarrow> Inr NaN)
      | NaN \<Rightarrow> Inr NaN
      | _ \<Rightarrow> (case a of Finite x \<Rightarrow> Inr (Finite 0) | _ \<Rightarrow> Inr NaN))"

text \<open>
  \<open>x ** n\<close> for a float and a non-negative integer literal: a finite base whose power
  overflows raises \<open>OverflowError\<close>; underflow gives zero silently.
\<close>

definition py_pow :: "py_float \<Rightarrow> nat \<Rightarrow> py_error + py_float" where
  "py_pow a n =
     (if n = 0 then Inr (Finite 1)
      else (case a of
              Finite x \<Rightarrow>
                if overflow_threshold \<le> \<bar>x ^ n\<bar> then Inl OverflowError else Inr (fl (x ^ n))
            | PosInf \<Rightarrow> Inr PosInf
            | NegInf \<Rightarrow> Inr (if odd n then NegInf else PosInf)
            | NaN \<Rightarrow> Inr NaN))"

text \<open>
  \<open>math.exp\<close>: a finite argument whose exponential overflows raises \<open>OverflowError\<close>;
  underflow gives zero silently.
\<close>

definition py_exp :: "py_float \<Rightarrow> py_error + py_float" where
  "py_exp a =
     (case a of
        Finite x \<Rightarrow> if overflow_threshold \<le> exp x then Inl OverflowError else Inr (fl (exp x))
      | PosInf \<Rightarrow> Inr PosInf
      | NegInf \<Rightarrow> Inr (Finite 0)
      | NaN \<Rightarrow> Inr NaN)"

text \<open>The tests \<open>x != 0\<close> and \<open>x > 0\<close>; \<open>nan\<close> is different from 0 and not above it.\<close>

fun py_nonzero :: "py_float \<Rightarrow> bool" where
  "py_nonzero (Finite x) = (x \<noteq> 0)"
| "py_nonzero PosInf = True"
| "py_nonzero NegInf = True"
| "py_nonzero NaN = True"

fun py_positive :: "py_float \<Rightarrow> bool" where
  "py_positive (Finite x) = (0 < x)"
| "py_positive PosInf = True"
| "py_positive NegInf = False"
| "py_positive NaN = False"

text \<open>
  An \<open>int\<close> operand of a float operation is converted to a float first; an \<open>int\<close> too large
  for a double raises \<open>OverflowError\<close>.
\<close>

definition int_to_float :: "int \<Rightarrow> py_error + py_float" where
  "int_to_float i =
     (if overflow_threshold \<le> \<bar>of_int i\<bar> then Inl OverflowError else Inr (Finite (of_int i)))"

definition math_pi :: py_float where
  "math_pi = Finite pi"

subsection \<open>Pore geometry\<close>

definition calculate_surface_area :: "py_float \<Rightarrow> py_error + py_float" where
  "calculate_surface_area radius =
     and_then (py_pow radius 2) (\<lambda>sq. Inr (py_mul (py_mul (Finite 4) math_pi) sq))"

definition calculate_volume :: "py_float \<Rightarrow> py_error + py_float" where
  "calculate_volume radius =
     and_then (py_pow radius 3) (\<lambda>cube. Inr (py_mul (py_mul (Finite (4 / 3)) math_pi) cube))"

definition calculate_surface_to_volume_ratio :: "py_float \<Rightarrow> py_float \<Rightarrow> py_error + py_float" where
  "calculate_surface_to_volume_ratio surface_area volume =
     (if py_nonzero volume then py_truediv surface_area volume else Inr (Finite 0))"

subsection \<open>T2 relaxation time\<close>

definition instability_message :: string where
  "instability_message = ''Numerical instability detected. Please check your input parameters.''"

text \<open>
  The body of \<open>calculate_t2\<close> is a conditional expression inside \<open>try\<close>; the handler catches
  \<open>ZeroDivisionError\<close> only, reports it with \<open>st.error\<close> and returns 0.
\<close>

definition calculate_t2 :: "py_float \<Rightarrow> py_float \<Rightarrow> py_error + py_float \<times> string list" where
  "calculate_t2 relaxivity surface_to_volume_ratio =
     (case (if py_nonzero surface_to_volume_ratio
            then py_truediv (Finite 1) (py_mul relaxivity surface_to_volume_ratio)
            else Inr (Finite 0)) of
        Inr v \<Rightarrow> Inr (v, [])
      | Inl ZeroDivisionError \<Rightarrow> Inr (Finite 0, [instability_message])
      | Inl e \<Rightarrow> Inl e)"

subsection \<open>Unit selection\<close>

text \<open>
  \<open>unit_options\<close> is one dictionary with four keys; both select boxes offer all four, so a
  time unit can be chosen for the radius and the reverse. The keys are an enumeration.
\<close>

datatype unit_key = Micrometre | Nanometre | Millisecond | Second

fun unit_options :: "unit_key \<Rightarrow> real" where
  "unit_options Micrometre = 1"
| "unit_options Nanometre = 1000"
| "unit_options Millisecond = 1"
| "unit_options Second = 0.001"

definition adjust_radius :: "py_float \<Rightarrow> unit_key \<Rightarrow> py_float" where
  "adjust_radius radius radius_unit = py_mul radius (Finite (unit_options radius_unit))"

definition adjust_t2_values :: "py_float list \<Rightarrow> unit_key \<Rightarrow> py_float list" where
  "adjust_t2_values slider_t2_values time_unit =
     map (\<lambda>t. py_mul t (Finite (unit_options time_unit))) slider_t2_values"

subsection \<open>Decay curve\<close>

text \<open>
  \<open>[porosity * math.exp(-t / t2) if t2 > 0 else 0 for t in slider_t2_values]\<close>. The
  elements are computed in order and the first exception ends the comprehension. In one
  element \<open>math.exp\<close> is evaluated before the \<open>int\<close> porosity is converted for the product.
\<close>

definition mt_value :: "int \<Rightarrow> py_float \<Rightarrow> py_float \<Rightarrow> py_error + py_float" where
  "mt_value porosity t2 t =
     (if py_positive t2
      then and_then (py_truediv (py_neg t) t2) (\<lambda>q.
           and_then (py_exp q) (\<lambda>e.
           and_then (int_to_float porosity) (\<lambda>p. Inr (py_mul p e))))
      else Inr (Finite 0))"

fun mt_values :: "int \<Rightarrow> py_float \<Rightarrow> py_float list \<Rightarrow> py_error + py_float list" where
  "mt_values porosity t2 [] = Inr []"
| "mt_values porosity t2 (t # ts) =
     and_then (mt_value porosity t2 t) (\<lambda>m.
     and_then (mt_values porosity t2 ts) (\<lambda>ms. Inr (m # ms)))"

subsection \<open>The calculation pass of one geometry\<close>

text \<open>
  Lines 164-168 of T2dist.py (158-161 of nmr_T2decay_model.py; lines 348-359 do the same
  for each of the three pore sizes): area, volume, ratio and T2 from an adjusted radius.
\<close>

record calculated_parameters =
  surface_area :: py_float
  volume :: py_float
  surface_to_volume_ratio :: py_float
  t2 :: py_float
  errors_shown :: "string list"

definition calculate_parameters ::
  "py_float \<Rightarrow> py_float \<Rightarrow> py_error + calculated_parameters" where
  "calculate_parameters relaxivity radius =
     and_then (calculate_surface_area radius) (\<lambda>s.
     and_then (calculate_volume radius) (\<lambda>v.
     and_then (calculate_surface_to_volume_ratio s v) (\<lambda>sv.
     and_then (calculate_t2 relaxivity sv) (\<lambda>(t, msgs).
       Inr \<lparr>surface_area = s, volume = v, surface_to_volume_ratio = sv,
            t2 = t, errors_shown = msgs\<rparr>))))"

text \<open>The ratio alone, from a radius: area, volume and their guarded quotient.\<close>

definition geometry_ratio :: "py_float \<Rightarrow> py_error + py_float" where
  "geometry_ratio radius =
     and_then (calculate_surface_area radius) (\<lambda>s.
     and_then (calculate_volume radius) (\<lambda>v.
       calculate_surface_to_volume_ratio s v))"

subsection \<open>The three pore sizes of the second tab\<close>

text \<open>
  Lines 341-359 of T2dist.py compute, for each pore size, the adjusted radius, the area, the
  volume, the ratio and \<open>t2_i_tab2\<close>; the three chains do not use each other's values.
\<close>

definition t2_tab2 :: "py_float \<Rightarrow> unit_key \<Rightarrow> py_float \<Rightarrow> py_error + py_float" where
  "t2_tab2 relaxivity radius_unit pore_size =
     map_sum id t2 (calculate_parameters relaxivity (adjust_radius pore_size radius_unit))"

subsection \<open>Parsing the T2 list\<close>

text \<open>
  \<open>[float(t.strip()) for t in custom_t2_values.split(",")]\<close> inside \<open>try\<close>, with
  \<open>except ValueError\<close> showing a message and assigning the default list.

  A string is a list of 8-bit characters, which represents a Python string of ASCII
  characters (\<open>is_ascii_text\<close>); text with other characters is outside the model, and the
  properties of the parser are stated for ASCII text. On ASCII text \<open>str.strip\<close> removes
  the characters with codes 9-13, 28-31 and 32, and \<open>float\<close> accepts an optional sign, then
  \<open>inf\<close>, \<open>infinity\<close> or \<open>nan\<close> in any letter case, or a decimal number with an optional
  fraction and an optional exponent; single underscores may stand between two digits.
  Anything else raises \<open>ValueError\<close>. The value of a decimal literal is \<open>fl\<close> of the number
  it denotes, so a literal beyond the double range is an infinity or zero.
\<close>

definition is_ascii_text :: "string \<Rightarrow> bool" where
  "is_ascii_text s = list_all (\<lambda>c. (of_char c :: nat) < 128) s"

definition is_space :: "char \<Rightarrow> bool" where
  "is_space c = (let n = (of_char c :: nat) in n = 32 \<or> (9 \<le> n \<and> n \<le> 13) \<or> (28 \<le> n \<and> n \<le> 31))"

definition py_strip :: "string \<Rightarrow> string" where
  "py_strip s = rev (dropWhile is_space (rev (dropWhile is_space s)))"

fun py_split :: "char \<Rightarrow> string \<Rightarrow> string list" where
  "py_split sep [] = [[]]"
| "py_split sep (c # cs) =
     (if c = sep then [] # py_split sep cs
      else (case py_split sep cs of t # ts \<Rightarrow> (c # t) # ts | [] \<Rightarrow> [[c]]))"

definition is_digit :: "char \<Rightarrow> bool" where
  "is_digit c = (let n = (of_char c :: nat) in 48 \<le> n \<and> n \<le> 57)"

definition digit_value :: "char \<Rightarrow> nat" where
  "digit_value c = of_char c - 48"

definition to_lower :: "char \<Rightarrow> char" where
  "to_lower c = (let n = (of_char c :: nat) in if 65 \<le> n \<and> n \<le> 90 then char_of (n + 32) else c)"

fun remove_underscores :: "char \<Rightarrow> string \<Rightarrow> string option" where
  "remove_underscores prev [] = (if prev = CHR ''_'' then None else Some [])"
| "remove_underscores prev (c # cs) =
     (if c = CHR ''_'' then (if is_digit prev then remove_underscores c cs else None)
      else if prev = CHR ''_'' \<and> \<not> is_digit c then None
      else map_option ((#) c) (remove_underscores c cs))"

definition split_sign :: "string \<Rightarrow> bool \<times> string" where
  "split_sign s =
     (case s of
        [] \<Rightarrow> (False, [])
      | c # cs \<Rightarrow> if c = CHR ''-'' then (True, cs) else if c = CHR ''+'' then (False, cs)
                 else (False, s))"

definition parse_inf_or_nan :: "string \<Rightarrow> py_float option" where
  "parse_inf_or_nan s =
     (case split_sign s of (negative, body) \<Rightarrow>
        (let low = map to_lower body in
         if low = ''inf'' \<or> low = ''infinity'' then Some (if negative then NegInf else PosInf)
         else if low = ''nan'' then Some NaN
         else None))"

definition digits_value :: "string \<Rightarrow> nat" where
  "digits_value ds = foldl (\<lambda>a c. 10 * a + digit_value c) 0 ds"

definition parse_exponent :: "string \<Rightarrow> int option" where
  "parse_exponent s =
     (case s of
        [] \<Rightarrow> Some 0
      | c # cs \<Rightarrow>
          if c = CHR ''e'' \<or> c = CHR ''E'' then
            (case split_sign cs of (negative, ds) \<Rightarrow>
               if ds \<noteq> [] \<and> list_all is_digit ds
               then Some (if negative then - int (digits_value ds) else int (digits_value ds))
               else None)
          else None)"

definition scale10 :: "real \<Rightarrow> int \<Rightarrow> real" where
  "scale10 m e = (if 0 \<le> e then m * 10 ^ nat e else m / 10 ^ nat (- e))"

definition parse_decimal :: "string \<Rightarrow> real option" where
  "parse_decimal s =
     (case split_sign s of (negative, s1) \<Rightarrow>
        (let ip = takeWhile is_digit s1;
             s2 = dropWhile is_digit s1;
             (fp, s3) = (case s2 of
                           [] \<Rightarrow> ([], [])
                         | c # cs \<Rightarrow> if c = CHR ''.''
                                    then (takeWhile is_digit cs, dropWhile is_digit cs)
                                    else ([], s2))
         in if ip = [] \<and> fp = [] then None
            else (case parse_exponent s3 of
                    None \<Rightarrow> None
                  | Some e \<Rightarrow>
                      (let m = scale10 (real (digits_value ip)
                                        + real (digits_value fp) / 10 ^ length fp) e
                       in Some (if negative then - m else m)))))"

definition py_float :: "string \<Rightarrow> py_error + py_float" where
  "py_float s =
     (case remove_underscores (CHR 0x00) (py_strip s) of
        None \<Rightarrow> Inl ValueError
      | Some u \<Rightarrow>
          (case parse_inf_or_nan u of
             Some v \<Rightarrow> Inr v
           | None \<Rightarrow>
               (case parse_decimal u of
                  Some x \<Rightarrow> Inr (fl x)
                | None \<Rightarrow> Inl ValueError)))"

definition default_t2_values :: "py_float list" where
  "default_t2_values = map Finite [0.5, 1, 2, 4, 8, 16, 32, 64, 128, 256, 512, 1024]"

definition invalid_t2_message :: string where
  "invalid_t2_message = ''Invalid T2 values. Please enter comma-separated numbers.''"

fun float_each :: "string list \<Rightarrow> py_error + py_float list" where
  "float_each [] = Inr []"
| "float_each (t # ts) =
     and_then (py_float (py_strip t)) (\<lambda>v.
     and_then (float_each ts) (\<lambda>vs. Inr (v # vs)))"

definition slider_t2_values :: "string \<Rightarrow> py_error + py_float list \<times> string list" where
  "slider_t2_values custom_t2_values =
     (case float_each (py_split CHR '','' custom_t2_values) of
        Inr vs \<Rightarrow> Inr (vs, [])
      | Inl ValueError \<Rightarrow> Inr (default_t2_values, [invalid_t2_message])
      | Inl e \<Rightarrow> Inl e)"

definition token_ok :: "string \<Rightarrow> bool" where
  "token_ok t = (\<not> isl (py_float (py_strip t)))"

definition token_value :: "string \<Rightarrow> py_float" where
  "token_value t = projr (py_float (py_strip t))"

subsection \<open>Predicates used to state the properties\<close>

definition strictly_increasing :: "real list \<Rightarrow> bool" where
  "strictly_increasing xs = sorted_wrt (\<lambda>a b. a < b) xs"

definition strictly_decreasing :: "real list \<Rightarrow> bool" where
  "strictly_decreasing xs = sorted_wrt (\<lambda>a b. b < a) xs"

definition never_increasing :: "real list \<Rightarrow> bool" where
  "never_increasing xs = sorted_wrt (\<lambda>a b. b \<le> a) xs"


definition all_positive :: "real list \<Rightarrow> bool" where
  "all_positive xs = list_all (\<lambda>t. 0 < t) xs"

definition all_within :: "real \<Rightarrow> real \<Rightarrow> real list \<Rightarrow> bool" where
  "all_within lo hi xs = list_all (\<lambda>m. lo \<le> m \<and> m \<le> hi) xs"

subsection \<open>One Mt entry as a real number\<close>

text \<open>
  For finite positive \<open>t2\<close> and \<open>t\<close> and a porosity from 0 to 100 the entry
  \<open>porosity * math.exp(-t / t2)\<close> is a finite float; \<open>decay\<close> is its value, with the
  underflows of the quotient, of the exponential and of the product written out (\<open>flush\<close>).
\<close>

definition flush :: "real \<Rightarrow> real" where
  "flush x = (if \<bar>x\<bar> \<le> underflow_threshold then 0 else x)"

definition decay_factor :: "real \<Rightarrow> real \<Rightarrow> real" where
  "decay_factor \<tau> t =
     (if overflow_threshold \<le> t / \<tau> then 0
      else if t / \<tau> \<le> underflow_threshold then 1
      else flush (exp (- (t / \<tau>))))"

definition decay :: "int \<Rightarrow> real \<Rightarrow> real \<Rightarrow> real" where
  "decay porosity \<tau> t = flush (of_int porosity * decay_factor \<tau> t)"

section \<open>Properties\<close>

subsection \<open>The double range\<close>

lemma overflow_threshold_gt: "2 ^ 1023 < overflow_threshold"
proof -
  have "(2::real) ^ 970 < 2 ^ 1023" by (rule power_strict_increasing) simp_all
  moreover have "(2::real) ^ 1024 = 2 * 2 ^ 1023" by simp
  ultimately show ?thesis unfolding overflow_threshold_def by linarith
qed

lemma overflow_threshold_lt: "overflow_threshold < 2 ^ 1024"
  unfolding overflow_threshold_def by simp

lemma underflow_threshold_lt: "underflow_threshold < 1 / 2 ^ 1074"
proof -
  have "(2::real) ^ 1074 < 2 ^ 1075" by (rule power_strict_increasing) simp_all
  then show ?thesis unfolding underflow_threshold_def
    by (simp add: frac_less2)
qed

lemma underflow_threshold_pos: "0 < underflow_threshold"
  by (simp add: underflow_threshold_def)

lemma fl_Finite:
  assumes "1 / 2 ^ 1074 \<le> \<bar>x\<bar>" "\<bar>x\<bar> \<le> 2 ^ 1023"
  shows "fl x = Finite x"
  using assms overflow_threshold_gt underflow_threshold_lt
  by (auto simp add: fl_def)

lemma fl_zero: "fl 0 = Finite 0"
  using overflow_threshold_gt by (simp add: fl_def underflow_threshold_def)

lemma pow2_1000: "(1::real) / 2 ^ 1074 \<le> 1 / 2 ^ 1000" "(2::real) ^ 1000 \<le> 2 ^ 1023"
  by (simp_all add: frac_le power_increasing)

lemma fl_mid:
  assumes "1 / 2 ^ 1000 \<le> \<bar>x\<bar>" "\<bar>x\<bar> \<le> 2 ^ 1000"
  shows "fl x = Finite x"
  using assms pow2_1000 by (intro fl_Finite) linarith+

lemma small_bounds: "(1::real) / 2 ^ 1000 \<le> 1 / 10 ^ 9" "(10::real) ^ 9 \<le> 2 ^ 1000"
proof -
  have a: "(10::real) ^ 9 \<le> 2 ^ 30" by simp
  have b: "(2::real) ^ 30 \<le> 2 ^ 1000" by (rule power_increasing) simp_all
  from a b show "(10::real) ^ 9 \<le> 2 ^ 1000" by linarith
  then show "(1::real) / 2 ^ 1000 \<le> 1 / 10 ^ 9"
    by (intro frac_le) simp_all
qed

lemma fl_modest:
  assumes "1 / 10 ^ 9 \<le> \<bar>x\<bar>" "\<bar>x\<bar> \<le> 10 ^ 9"
  shows "fl x = Finite x"
  using assms small_bounds by (intro fl_mid) linarith+

lemma modest_below_overflow:
  assumes "\<bar>x\<bar> \<le> 10 ^ 9"
  shows "\<not> overflow_threshold \<le> \<bar>x\<bar>"
  using assms small_bounds(2) pow2_1000(2) overflow_threshold_gt by linarith

subsection \<open>Geometry and T2 in the regular range\<close>

lemma fl_between:
  assumes "1 / 2 ^ a \<le> \<bar>x\<bar>" "\<bar>x\<bar> \<le> 2 ^ b" "a \<le> 1074" "b \<le> 1023"
  shows "fl x = Finite x"
proof -
  have "(2::real) ^ a \<le> 2 ^ 1074" using assms(3) by (intro power_increasing) simp_all
  then have "(1::real) / 2 ^ 1074 \<le> 1 / 2 ^ a" by (intro frac_le) simp_all
  moreover have "(2::real) ^ b \<le> 2 ^ 1023" using assms(4) by (intro power_increasing) simp_all
  ultimately show ?thesis using assms(1,2) by (intro fl_Finite) linarith+
qed

lemma below_overflow:
  assumes "\<bar>x\<bar> \<le> 2 ^ b" "b \<le> 1023"
  shows "\<not> overflow_threshold \<le> \<bar>x\<bar>"
proof -
  have "(2::real) ^ b \<le> 2 ^ 1023" using assms(2) by (intro power_increasing) simp_all
  with assms(1) overflow_threshold_gt show ?thesis by linarith
qed

lemma pi_bounds: "2 \<le> pi" "pi < 4"
  using pi_ge_two pi_less_4 by simp_all

lemma power_between:
  fixes r :: real
  assumes "1 / 2 ^ a \<le> \<bar>r\<bar>" "\<bar>r\<bar> \<le> 2 ^ b"
  shows "1 / 2 ^ (a * n) \<le> \<bar>r ^ n\<bar>" "\<bar>r ^ n\<bar> \<le> 2 ^ (b * n)"
proof -
  have "(1 / 2 ^ a) ^ n \<le> \<bar>r\<bar> ^ n"
    using assms(1) by (intro power_mono) simp_all
  then show "1 / 2 ^ (a * n) \<le> \<bar>r ^ n\<bar>"
    by (simp add: power_abs power_mult power_one_over)
  have "\<bar>r\<bar> ^ n \<le> (2 ^ b) ^ n"
    using assms(2) by (intro power_mono) simp_all
  then show "\<bar>r ^ n\<bar> \<le> 2 ^ (b * n)"
    by (simp add: power_abs power_mult)
qed

lemma scaled_between:
  fixes c x :: real
  assumes "1 \<le> c" "c \<le> 8" "1 / 2 ^ a \<le> \<bar>x\<bar>" "\<bar>x\<bar> \<le> 2 ^ b"
  shows "1 / 2 ^ a \<le> \<bar>c * x\<bar>" "\<bar>c * x\<bar> \<le> 2 ^ (b + 3)"
proof -
  have c: "\<bar>c * x\<bar> = c * \<bar>x\<bar>" using assms(1) by (simp add: abs_mult)
  have "1 * \<bar>x\<bar> \<le> c * \<bar>x\<bar>" using assms(1) by (intro mult_right_mono) simp_all
  with assms(3) show "1 / 2 ^ a \<le> \<bar>c * x\<bar>" unfolding c by linarith
  have "c * \<bar>x\<bar> \<le> 8 * 2 ^ b"
    using assms(1,2,4) by (intro mult_mono) simp_all
  then show "\<bar>c * x\<bar> \<le> 2 ^ (b + 3)" unfolding c by (simp add: power_add)
qed

lemma surface_area_regular:
  assumes "1 / 2 ^ 340 \<le> \<bar>r\<bar>" "\<bar>r\<bar> \<le> 2 ^ 340"
  shows "calculate_surface_area (Finite r) = Inr (Finite (4 * pi * r ^ 2))"
proof -
  note sq = power_between [OF assms, of 2]
  have p: "py_pow (Finite r) 2 = Inr (Finite (r ^ 2))"
    using sq below_overflow [of "r ^ 2" "340 * 2"] fl_between [of "340 * 2" "r ^ 2" "340 * 2"]
    by (simp add: py_pow_def)
  have k: "fl (4 * pi) = Finite (4 * pi)"
    using pi_bounds by (intro fl_modest) (simp_all add: abs_if)
  have c: "1 \<le> 4 * pi / 2" "4 * pi / 2 \<le> 8" using pi_bounds by simp_all
  note sc = scaled_between [OF c sq]
  have "1 / 2 ^ (340 * 2) \<le> \<bar>4 * pi * r ^ 2\<bar>" using sc(1) by (simp add: abs_mult)
  moreover have "\<bar>4 * pi * r ^ 2\<bar> \<le> 2 ^ (340 * 2 + 4)"
    using sc(2) by (simp add: abs_mult)
  ultimately have "fl (4 * pi * r ^ 2) = Finite (4 * pi * r ^ 2)"
    by (rule fl_between) simp_all
  with p k show ?thesis
    by (simp add: calculate_surface_area_def and_then_def math_pi_def)
qed

lemma volume_regular:
  assumes "1 / 2 ^ 340 \<le> \<bar>r\<bar>" "\<bar>r\<bar> \<le> 2 ^ 340"
  shows "calculate_volume (Finite r) = Inr (Finite (4 / 3 * pi * r ^ 3))"
proof -
  note cu = power_between [OF assms, of 3]
  have p: "py_pow (Finite r) 3 = Inr (Finite (r ^ 3))"
    using cu below_overflow [of "r ^ 3" "340 * 3"] fl_between [of "340 * 3" "r ^ 3" "340 * 3"]
    by (simp add: py_pow_def)
  have k: "fl (4 / 3 * pi) = Finite (4 / 3 * pi)"
    using pi_bounds by (intro fl_modest) (simp_all add: abs_if)
  have c: "1 \<le> 4 / 3 * pi" "4 / 3 * pi \<le> 8" using pi_bounds by simp_all
  note sc = scaled_between [OF c cu]
  have "fl (4 / 3 * pi * r ^ 3) = Finite (4 / 3 * pi * r ^ 3)"
    using sc by (rule fl_between) simp_all
  with p k show ?thesis
    by (simp add: calculate_volume_def and_then_def math_pi_def)
qed

lemma ratio_regular:
  assumes "1 / 2 ^ 340 \<le> \<bar>r\<bar>" "\<bar>r\<bar> \<le> 2 ^ 340"
  shows "calculate_surface_to_volume_ratio (Finite (4 * pi * r ^ 2)) (Finite (4 / 3 * pi * r ^ 3))
         = Inr (Finite (3 / r))"
proof -
  have nz: "r \<noteq> 0" using assms(1) by auto
  have q: "4 * pi * r ^ 2 / (4 / 3 * pi * r ^ 3) = 3 / r"
    using nz by (simp add: power2_eq_square power3_eq_cube field_simps)
  have "\<bar>3 / r\<bar> = 3 / \<bar>r\<bar>" by simp
  have lo: "1 / 2 ^ 340 \<le> \<bar>3 / r\<bar>"
  proof -
    have "1 / 2 ^ 340 \<le> 1 / \<bar>r\<bar>"
      using assms(2) nz by (intro frac_le) simp_all
    also have "\<dots> \<le> 3 / \<bar>r\<bar>" by (intro divide_right_mono) simp_all
    finally show ?thesis by simp
  qed
  have hi: "\<bar>3 / r\<bar> \<le> 2 ^ 342"
  proof -
    have "1 / \<bar>r\<bar> \<le> 2 ^ 340"
      using assms(1) nz by (simp add: field_simps)
    moreover have "(0::real) \<le> 2 ^ 340" by simp
    ultimately have "3 * (1 / \<bar>r\<bar>) \<le> 4 * 2 ^ 340" by linarith
    then show ?thesis by simp
  qed
  have "fl (3 / r) = Finite (3 / r)"
    using lo hi by (rule fl_between) simp_all
  moreover have "4 / 3 * pi * r ^ 3 \<noteq> 0" using nz by simp
  ultimately show ?thesis
    unfolding calculate_surface_to_volume_ratio_def py_truediv_def
    by (simp only: q py_nonzero.simps py_float.case if_False) simp
qed

lemma geometry_ratio_regular:
  assumes "1 / 2 ^ 340 \<le> \<bar>r\<bar>" "\<bar>r\<bar> \<le> 2 ^ 340"
  shows "geometry_ratio (Finite r) = Inr (Finite (3 / r))"
  by (simp only: geometry_ratio_def surface_area_regular [OF assms] volume_regular [OF assms]
      ratio_regular [OF assms] and_then_def sum.case)

lemma calculate_t2_total: "\<exists>v msgs. calculate_t2 relaxivity sv = Inr (v, msgs)"
  by (cases sv; cases "py_mul relaxivity sv")
     (auto simp add: calculate_t2_def py_truediv_def split: py_float.splits)

lemma t2_zero_ratio: "calculate_t2 relaxivity (Finite 0) = Inr (Finite 0, [])"
  by (simp add: calculate_t2_def)

lemma t2_zero_relaxivity:
  "s \<noteq> 0 \<Longrightarrow> calculate_t2 (Finite 0) (Finite s) = Inr (Finite 0, [instability_message])"
  by (simp add: calculate_t2_def py_truediv_def fl_zero)

lemma t2_regular:
  assumes "1 / 2 ^ 1000 \<le> \<bar>q * s\<bar>" "\<bar>q * s\<bar> \<le> 2 ^ 1000"
  shows "calculate_t2 (Finite q) (Finite s) = Inr (Finite (1 / (q * s)), [])"
proof -
  have nz: "q * s \<noteq> 0" using assms(1) by auto
  have m: "fl (q * s) = Finite (q * s)" using assms by (rule fl_mid)
  have "1 / 2 ^ 1000 \<le> 1 / \<bar>q * s\<bar>"
    using assms(2) nz by (intro frac_le) simp_all
  moreover have "1 / \<bar>q * s\<bar> \<le> 2 ^ 1000"
    using assms(1) nz by (simp add: field_simps)
  ultimately have "fl (1 / (q * s)) = Finite (1 / (q * s))"
    by (intro fl_mid) (simp_all add: abs_divide)
  with m nz show ?thesis
    by (simp add: calculate_t2_def py_truediv_def)
qed

lemma parameters_ratio:
  assumes "1 / 2 ^ 340 \<le> \<bar>r\<bar>" "\<bar>r\<bar> \<le> 2 ^ 340"
  shows "map_sum id surface_to_volume_ratio (calculate_parameters relaxivity (Finite r))
         = Inr (Finite (3 / r))"
proof -
  obtain v msgs where "calculate_t2 relaxivity (Finite (3 / r)) = Inr (v, msgs)"
    using calculate_t2_total by blast
  then show ?thesis
    by (simp only: calculate_parameters_def surface_area_regular [OF assms]
        volume_regular [OF assms] ratio_regular [OF assms] and_then_def sum.case prod.case
        map_sum.simps id_apply calculated_parameters.simps)
qed

lemma parameters_regular:
  assumes "1 / 2 ^ 340 \<le> \<bar>r\<bar>" "\<bar>r\<bar> \<le> 2 ^ 340"
    and "1 / 2 ^ 1000 \<le> \<bar>q * (3 / r)\<bar>" "\<bar>q * (3 / r)\<bar> \<le> 2 ^ 1000"
  shows "calculate_parameters (Finite q) (Finite r) =
         Inr \<lparr>surface_area = Finite (4 * pi * r ^ 2), volume = Finite (4 / 3 * pi * r ^ 3),
              surface_to_volume_ratio = Finite (3 / r), t2 = Finite (1 / (q * (3 / r))),
              errors_shown = []\<rparr>"
  by (simp only: calculate_parameters_def surface_area_regular [OF assms(1,2)]
      volume_regular [OF assms(1,2)] ratio_regular [OF assms(1,2)] t2_regular [OF assms(3,4)]
      and_then_def sum.case prod.case)

lemma four_pi: "py_mul (Finite 4) math_pi = Finite (4 * pi)"
  unfolding math_pi_def py_mul.simps
  using pi_bounds by (intro fl_modest) (simp_all add: abs_if)

lemma four_thirds_pi: "py_mul (Finite (4 / 3)) math_pi = Finite (4 / 3 * pi)"
  unfolding math_pi_def py_mul.simps
  using pi_bounds by (intro fl_modest) (simp_all add: abs_if)

lemma overflow_threshold_pos: "0 < overflow_threshold"
proof -
  have "(0::real) < 2 ^ 1023" by (rule zero_less_power) simp
  then show ?thesis using overflow_threshold_gt by (rule less_trans)
qed

lemma pow_zero:
  assumes "0 < n"
  shows "py_pow (Finite 0) n = Inr (Finite 0)"
  using assms overflow_threshold_pos by (simp add: py_pow_def fl_zero not_le power_0_left)

lemma surface_area_zero: "calculate_surface_area (Finite 0) = Inr (Finite 0)"
  unfolding calculate_surface_area_def four_pi
  by (simp add: pow_zero and_then_def fl_zero)

lemma volume_zero: "calculate_volume (Finite 0) = Inr (Finite 0)"
  unfolding calculate_volume_def four_thirds_pi
  by (simp add: pow_zero and_then_def fl_zero)

lemma ratio_zero_volume: "calculate_surface_to_volume_ratio s (Finite 0) = Inr (Finite 0)"
  by (simp add: calculate_surface_to_volume_ratio_def)

lemma parameters_at_zero:
  "calculate_parameters relaxivity (Finite 0) =
     Inr \<lparr>surface_area = Finite 0, volume = Finite 0, surface_to_volume_ratio = Finite 0,
          t2 = Finite 0, errors_shown = []\<rparr>"
  by (simp add: calculate_parameters_def surface_area_zero volume_zero ratio_zero_volume
      t2_zero_ratio and_then_def)

lemma fl_underflow:
  assumes "\<bar>x\<bar> \<le> 1 / 2 ^ 1075"
  shows "fl x = Finite 0"
proof -
  have "(1::real) / 2 ^ 1075 \<le> 1" by simp
  with assms overflow_threshold_gt have "\<bar>x\<bar> < overflow_threshold"
    using one_le_power [of "2::real" 1023] by linarith
  with assms show ?thesis by (auto simp add: fl_def underflow_threshold_def)
qed

lemma adjust_radius_zero: "adjust_radius (Finite 0) radius_unit = Finite 0"
  by (simp add: adjust_radius_def fl_zero)

lemma adjust_radius_micrometre:
  assumes "1 / 10 ^ 9 \<le> \<bar>r\<bar>" "\<bar>r\<bar> \<le> 10 ^ 9"
  shows "adjust_radius (Finite r) Micrometre = Finite r"
  using fl_modest [OF assms] by (simp add: adjust_radius_def)

lemma pow_result:
  "py_pow (Finite x) n = Inl OverflowError \<or> (\<exists>y. py_pow (Finite x) n = Inr (Finite y))"
proof -
  have "\<exists>y. fl z = Finite y" if "\<not> overflow_threshold \<le> \<bar>z\<bar>" for z
    using that by (auto simp add: fl_def)
  then show ?thesis by (auto simp add: py_pow_def)
qed

lemma surface_area_result:
  "calculate_surface_area (Finite r) = Inl OverflowError
   \<or> (\<exists>a. calculate_surface_area (Finite r) = Inr a)"
  using pow_result [of r 2] by (auto simp add: calculate_surface_area_def and_then_def)

lemma abs_power_le_one:
  fixes r :: real
  assumes "\<bar>r\<bar> \<le> 1"
  shows "\<bar>r ^ n\<bar> \<le> 1"
proof -
  have "\<bar>r\<bar> ^ n \<le> 1" using assms by (intro power_le_one) simp_all
  then show ?thesis by (simp only: power_abs)
qed

lemma small_radius_ratio:
  assumes "\<bar>r\<bar> \<le> 1 / 2 ^ 359"
  shows "geometry_ratio (Finite r) = Inr (Finite 0)"
proof -
  have r1: "\<bar>r\<bar> \<le> 1"
  proof -
    have "(1::real) / 2 ^ 359 \<le> 1" by simp
    with assms show ?thesis by linarith
  qed
  have "\<bar>r ^ 2\<bar> \<le> 1" using r1 by (rule abs_power_le_one)
  then have "\<not> overflow_threshold \<le> \<bar>r ^ 2\<bar>"
    using below_overflow [of "r ^ 2" 0] by simp
  then obtain a where a: "calculate_surface_area (Finite r) = Inr a"
    by (simp add: calculate_surface_area_def py_pow_def and_then_def)
  have "\<bar>r\<bar> ^ 3 \<le> (1 / 2 ^ 359) ^ 3" using assms by (intro power_mono) simp_all
  also have "\<dots> = 1 / 2 ^ 1077" by (simp add: power_one_over power_mult [symmetric])
  also have "\<dots> \<le> 1 / 2 ^ 1075" by (intro frac_le power_increasing) simp_all
  finally have cu: "\<bar>r ^ 3\<bar> \<le> 1 / 2 ^ 1075" by (simp add: power_abs)
  have "\<bar>r ^ 3\<bar> \<le> 1" using r1 by (rule abs_power_le_one)
  then have "\<not> overflow_threshold \<le> \<bar>r ^ 3\<bar>"
    using below_overflow [of "r ^ 3" 0] by simp
  then have "py_pow (Finite r) 3 = Inr (Finite 0)"
    using fl_underflow [OF cu] by (simp add: py_pow_def)
  then have v: "calculate_volume (Finite r) = Inr (Finite 0)"
    unfolding calculate_volume_def four_thirds_pi by (simp add: and_then_def fl_zero)
  show ?thesis
    unfolding geometry_ratio_def a v by (simp add: and_then_def ratio_zero_volume)
qed

lemma large_radius_raises:
  assumes "2 ^ 342 \<le> \<bar>r\<bar>"
  shows "calculate_volume (Finite r) = Inl OverflowError"
    and "geometry_ratio (Finite r) = Inl OverflowError"
proof -
  have "(2::real) ^ 1026 = (2 ^ 342) ^ 3" by (simp add: power_mult [symmetric])
  also have "\<dots> \<le> \<bar>r\<bar> ^ 3" using assms by (intro power_mono) simp_all
  finally have "2 ^ 1026 \<le> \<bar>r ^ 3\<bar>" by (simp add: power_abs)
  moreover have "(2::real) ^ 1024 \<le> 2 ^ 1026" by (rule power_increasing) simp_all
  ultimately have "overflow_threshold \<le> \<bar>r ^ 3\<bar>"
    using overflow_threshold_lt by linarith
  then have "py_pow (Finite r) 3 = Inl OverflowError"
    by (simp add: py_pow_def)
  then show v: "calculate_volume (Finite r) = Inl OverflowError"
    by (simp add: calculate_volume_def and_then_def)
  show "geometry_ratio (Finite r) = Inl OverflowError"
    using surface_area_result [of r] v
    by (auto simp add: geometry_ratio_def and_then_def)
qed

subsection \<open>T2 and the decay curve outside the regular range\<close>



lemma mt_values_not_positive:
  "\<not> py_positive T2 \<Longrightarrow> mt_values porosity T2 grid = Inr (replicate (length grid) (Finite 0))"
  by (induction grid) (simp_all add: mt_value_def and_then_def)




subsection \<open>The exponential and the decay curve\<close>

lemma fl_flush:
  assumes "0 \<le> x" "x < overflow_threshold"
  shows "fl x = Finite (flush x)"
  using assms overflow_threshold_pos by (auto simp add: fl_def flush_def)

lemma flush_bounds: "0 \<le> x \<Longrightarrow> 0 \<le> flush x \<and> flush x \<le> x"
  by (simp add: flush_def)

lemma flush_mono: "0 \<le> x \<Longrightarrow> x \<le> y \<Longrightarrow> flush x \<le> flush y"
  by (auto simp add: flush_def)

lemma one_in_range: "underflow_threshold < 1" "1 < overflow_threshold"
proof -
  have "(1::real) / 2 ^ 1074 \<le> 1" by simp
  with underflow_threshold_lt show "underflow_threshold < 1" by linarith
  have "(1::real) \<le> 2 ^ 1023" by (rule one_le_power) simp
  with overflow_threshold_gt show "1 < overflow_threshold" by linarith
qed

lemma exp_minus_one_bounds:
  "(367879 / 1000000 :: real) < exp (- 1) \<and> exp (- 1) < (367881 / 1000000 :: real)"
proof -
  obtain t :: real where t: "\<bar>t\<bar> \<le> \<bar>- 1\<bar>"
    and e: "exp (- 1 :: real) = (\<Sum>m<10. (- 1) ^ m / fact m) + (exp t / fact 10) * (- 1) ^ 10"
    using Maclaurin_exp_le [of "- 1" 10] by blast
  have s: "(\<Sum>m<10. (- 1 :: real) ^ m / fact m) = 16687 / 45360"
    by (simp add: lessThan_nat_numeral sum.lessThan_Suc fact_numeral lessThan_Suc)
  have "t \<le> 1" using t by simp
  then have "exp t \<le> exp 1" by simp
  then have u: "exp t \<le> 3" using exp_le by linarith
  have l: "0 < exp t" by simp
  have f: "(fact 10 :: real) = 3628800" by (simp add: fact_numeral)
  have "exp (- 1 :: real) = 16687 / 45360 + exp t / 3628800"
    using e s f by simp
  with u l show ?thesis by linarith
qed

lemma exp_near_minus_one_bounds:
  "(367878 / 1000000 :: real) < exp (- (1250001 / 1250000))
   \<and> exp (- (1250001 / 1250000)) < (367881 / 1000000 :: real)"
proof -
  have split: "exp (- (1250001 / 1250000) :: real) = exp (- 1) * exp (- (1 / 1250000))"
    by (simp add: exp_add [symmetric])
  have lo: "1 - 1 / 1250000 \<le> exp (- (1 / 1250000) :: real)"
    using exp_ge_add_one_self [of "- (1 / 1250000) :: real"] by simp
  have hi: "exp (- (1 / 1250000) :: real) < 1" by simp
  have b: "(367879 / 1000000 :: real) < exp (- 1)" "exp (- 1) < (367881 / 1000000 :: real)"
    using exp_minus_one_bounds by simp_all
  have l: "(367879 / 1000000) * (1 - 1 / 1250000) < exp (- 1) * exp (- (1 / 1250000) :: real)"
    using b(1) lo by (intro mult_less_le_imp_less) simp_all
  have "exp (- 1) * exp (- (1 / 1250000) :: real) < exp (- 1) * 1"
    using hi by (intro mult_strict_left_mono) simp_all
  with b(2) have u: "exp (- 1) * exp (- (1 / 1250000) :: real) < 367881 / 1000000"
    by linarith
  have "(367878 / 1000000 :: real) < (367879 / 1000000) * (1 - 1 / 1250000)"
    by simp
  then have "(367878 / 1000000 :: real) < exp (- 1) * exp (- (1 / 1250000))"
    using l by (rule less_trans)
  with u show ?thesis
    unfolding split by blast
qed

lemma decay_factor_bounds: "0 \<le> decay_factor \<tau> t \<and> decay_factor \<tau> t \<le> 1"
proof (cases "overflow_threshold \<le> t / \<tau> \<or> t / \<tau> \<le> underflow_threshold")
  case True
  then show ?thesis by (auto simp add: decay_factor_def)
next
  case False
  then have "0 < t / \<tau>" using underflow_threshold_pos by linarith
  then have "exp (- (t / \<tau>)) \<le> 1" by simp
  moreover have "0 \<le> flush (exp (- (t / \<tau>))) \<and> flush (exp (- (t / \<tau>))) \<le> exp (- (t / \<tau>))"
    by (rule flush_bounds) simp
  ultimately have "0 \<le> flush (exp (- (t / \<tau>))) \<and> flush (exp (- (t / \<tau>))) \<le> 1"
    by linarith
  with False show ?thesis by (simp add: decay_factor_def)
qed

lemma decay_factor_antimono:
  assumes "0 < \<tau>" "t \<le> u"
  shows "decay_factor \<tau> u \<le> decay_factor \<tau> t"
proof -
  have le: "t / \<tau> \<le> u / \<tau>" using assms by (simp add: divide_right_mono)
  show ?thesis
  proof (cases "overflow_threshold \<le> u / \<tau>")
    case True
    then have "decay_factor \<tau> u = 0" by (simp add: decay_factor_def)
    with decay_factor_bounds [of \<tau> t] show ?thesis by simp
  next
    case False
    with le have nt: "\<not> overflow_threshold \<le> t / \<tau>" by linarith
    show ?thesis
    proof (cases "t / \<tau> \<le> underflow_threshold")
      case True
      with nt have "decay_factor \<tau> t = 1" by (simp add: decay_factor_def)
      with decay_factor_bounds [of \<tau> u] show ?thesis by simp
    next
      case nu: False
      with le have "\<not> u / \<tau> \<le> underflow_threshold" by linarith
      moreover have "flush (exp (- (u / \<tau>))) \<le> flush (exp (- (t / \<tau>)))"
        using le by (intro flush_mono) simp_all
      ultimately show ?thesis
        using False nt nu by (simp add: decay_factor_def)
    qed
  qed
qed

lemma decay_bounds:
  assumes "0 \<le> porosity"
  shows "0 \<le> decay porosity \<tau> t \<and> decay porosity \<tau> t \<le> of_int porosity"
proof -
  have nn: "0 \<le> real_of_int porosity * decay_factor \<tau> t"
    using assms decay_factor_bounds [of \<tau> t] by simp
  have "real_of_int porosity * decay_factor \<tau> t \<le> real_of_int porosity * 1"
    using assms decay_factor_bounds [of \<tau> t] by (intro mult_left_mono) simp_all
  with flush_bounds [OF nn] show ?thesis
    unfolding decay_def by linarith
qed

lemma decay_antimono:
  assumes "0 \<le> porosity" "0 < \<tau>" "t \<le> u"
  shows "decay porosity \<tau> u \<le> decay porosity \<tau> t"
proof -
  have "real_of_int porosity * decay_factor \<tau> u \<le> real_of_int porosity * decay_factor \<tau> t"
    using assms(1) decay_factor_antimono [OF assms(2,3)] by (intro mult_left_mono) simp_all
  moreover have "0 \<le> real_of_int porosity * decay_factor \<tau> u"
    using assms(1) decay_factor_bounds [of \<tau> u] by simp
  ultimately show ?thesis
    unfolding decay_def by (intro flush_mono)
qed

lemma fl_minus_positive:
  assumes "0 < a"
  shows "fl (- a) = (if overflow_threshold \<le> a then NegInf
                     else if a \<le> underflow_threshold then Finite 0
                     else Finite (- a))"
  using assms overflow_threshold_pos by (auto simp add: fl_def)

lemma exp_factor:
  assumes "0 < \<tau>" "0 < t"
  shows "and_then (py_truediv (py_neg (Finite t)) (Finite \<tau>)) py_exp
         = Inr (Finite (decay_factor \<tau> t))"
proof -
  have pos: "0 < t / \<tau>" using assms by simp
  have q: "py_truediv (Finite (- t)) (Finite \<tau>) = Inr (fl (- (t / \<tau>)))"
    using assms(1) by (simp add: py_truediv_def)
  show ?thesis
  proof (cases "overflow_threshold \<le> t / \<tau>")
    case True
    then have "fl (- (t / \<tau>)) = NegInf"
      by (simp only: fl_minus_positive [OF pos] if_True)
    with True show ?thesis
      by (simp add: q and_then_def py_exp_def decay_factor_def)
  next
    case False
    show ?thesis
    proof (cases "t / \<tau> \<le> underflow_threshold")
      case True
      with False have "fl (- (t / \<tau>)) = Finite 0"
        by (simp only: fl_minus_positive [OF pos] if_True if_False)
      moreover have "fl 1 = Finite 1"
        using one_in_range by (simp add: fl_def)
      ultimately show ?thesis
        using True False one_in_range
        by (simp add: q and_then_def py_exp_def decay_factor_def)
    next
      case nu: False
      with False have f: "fl (- (t / \<tau>)) = Finite (- (t / \<tau>))"
        by (simp only: fl_minus_positive [OF pos] if_False)
      have "exp (- (t / \<tau>)) < 1" using pos by simp
      then have lt: "exp (- (t / \<tau>)) < overflow_threshold"
        using one_in_range(2) by linarith
      then have "fl (exp (- (t / \<tau>))) = Finite (flush (exp (- (t / \<tau>))))"
        by (intro fl_flush) simp_all
      with lt f show ?thesis
        using False nu by (simp add: q and_then_def py_exp_def decay_factor_def)
    qed
  qed
qed

lemma porosity_to_float:
  assumes "0 \<le> porosity" "porosity \<le> 100"
  shows "int_to_float porosity = Inr (Finite (of_int porosity))"
proof -
  have "\<bar>real_of_int porosity\<bar> \<le> 10 ^ 9" using assms by simp
  then show ?thesis using modest_below_overflow by (simp add: int_to_float_def)
qed

lemma mt_value_finite:
  assumes "0 < \<tau>" "0 < t" "0 \<le> porosity" "porosity \<le> 100"
  shows "mt_value porosity (Finite \<tau>) (Finite t) = Inr (Finite (decay porosity \<tau> t))"
proof -
  have nn: "0 \<le> real_of_int porosity * decay_factor \<tau> t"
    using assms(3) decay_factor_bounds [of \<tau> t] by simp
  have "real_of_int porosity * decay_factor \<tau> t \<le> 100 * 1"
    using assms(3,4) decay_factor_bounds [of \<tau> t] by (intro mult_mono) simp_all
  then have "real_of_int porosity * decay_factor \<tau> t \<le> 1 * 10 ^ 9" by simp
  then have "\<not> overflow_threshold \<le> \<bar>real_of_int porosity * decay_factor \<tau> t\<bar>"
    using nn by (intro modest_below_overflow) simp
  then have "real_of_int porosity * decay_factor \<tau> t < overflow_threshold"
    using nn by simp
  then have m: "fl (real_of_int porosity * decay_factor \<tau> t) = Finite (decay porosity \<tau> t)"
    unfolding decay_def using nn by (intro fl_flush)
  have e: "and_then (py_truediv (py_neg (Finite t)) (Finite \<tau>)) py_exp
         = Inr (Finite (decay_factor \<tau> t))"
    using assms(1,2) by (rule exp_factor)
  show ?thesis
    using assms(1) e m porosity_to_float [OF assms(3,4)]
    by (auto simp add: mt_value_def and_then_def split: sum.splits)
qed

lemma mt_values_finite:
  assumes "0 < \<tau>" "0 \<le> porosity" "porosity \<le> 100" "all_positive ts"
  shows "mt_values porosity (Finite \<tau>) (map Finite ts)
         = Inr (map Finite (map (decay porosity \<tau>) ts))"
  using assms(4)
proof (induction ts)
  case Nil
  then show ?case by simp
next
  case (Cons t ts)
  then have "0 < t" "all_positive ts" by (simp_all add: all_positive_def)
  with Cons.IH mt_value_finite [OF assms(1) \<open>0 < t\<close> assms(2,3)] show ?case
    by (simp add: and_then_def)
qed

lemma decay_never_increasing:
  assumes "0 < \<tau>" "0 \<le> porosity" "strictly_increasing ts"
  shows "never_increasing (map (decay porosity \<tau>) ts)"
proof -
  have "sorted_wrt (\<lambda>a b. decay porosity \<tau> b \<le> decay porosity \<tau> a) ts"
    using assms(3) unfolding strictly_increasing_def
    by (rule sorted_wrt_mono_rel [rotated]) (use decay_antimono [OF assms(2,1)] in force)
  then show ?thesis
    by (simp add: never_increasing_def sorted_wrt_map)
qed

lemma decay_all_within:
  assumes "0 \<le> porosity"
  shows "all_within 0 (of_int porosity) (map (decay porosity \<tau>) ts)"
  using decay_bounds [OF assms] by (simp add: all_within_def list_all_iff)

lemma exp_below_underflow:
  assumes "x \<le> - 1075"
  shows "exp x \<le> underflow_threshold"
proof -
  have "exp x \<le> exp (- 1075 :: real)" using assms by simp
  moreover have "exp (- 1075 :: real) \<le> 1 / 2 ^ 1075"
  proof -
    have "(2::real) \<le> exp 1" using exp_ge_add_one_self [of "1::real"] by simp
    then have "(2::real) ^ 1075 \<le> exp 1 ^ 1075" by (intro power_mono) simp_all
    also have "\<dots> = exp (1075 :: real)"
      using exp_of_nat_mult [of 1075 "1::real"] by simp
    finally have "1 / exp (1075::real) \<le> 1 / 2 ^ 1075" by (intro frac_le) simp_all
    moreover have "exp (- 1075 :: real) = 1 / exp 1075"
      by (simp add: exp_minus inverse_eq_divide)
    ultimately show ?thesis by (simp only:)
  qed
  ultimately show ?thesis unfolding underflow_threshold_def by (rule order_trans)
qed

lemma exp_above_underflow:
  fixes x :: real
  assumes "- 600 \<le> x"
  shows "1 / 2 ^ 1000 \<le> exp x"
proof -
  have "exp (600 :: real) = exp 1 ^ 600"
    using exp_of_nat_mult [of 600 "1::real"] by simp
  also have "\<dots> \<le> 3 ^ 600" using exp_le by (intro power_mono) simp_all
  also have "\<dots> = (3 ^ 3) ^ 200" by (simp add: power_mult [symmetric])
  also have "\<dots> \<le> ((2::real) ^ 5) ^ 200" by (intro power_mono) simp_all
  also have "\<dots> = 2 ^ 1000" by (simp add: power_mult [symmetric])
  finally have "1 / 2 ^ 1000 \<le> 1 / exp (600::real)" by (intro frac_le) simp_all
  moreover have "exp (- 600 :: real) = 1 / exp 600"
    by (simp add: exp_minus inverse_eq_divide)
  ultimately have "1 / 2 ^ 1000 \<le> exp (- 600 :: real)" by (simp only:)
  moreover have "exp (- 600 :: real) \<le> exp x" using assms by simp
  ultimately show ?thesis by (rule order_trans)
qed

lemma underflow_below_mid: "underflow_threshold < 1 / 2 ^ 1000"
proof -
  have "(1::real) / 2 ^ 1074 \<le> 1 / 2 ^ 1000" by (rule pow2_1000)
  with underflow_threshold_lt show ?thesis by linarith
qed

lemma flush_id: "1 / 2 ^ 1000 \<le> x \<Longrightarrow> flush x = x"
  using underflow_below_mid by (simp add: flush_def)

lemma decay_underflow:
  assumes "0 < \<tau>" "1075 \<le> t / \<tau>"
  shows "decay porosity \<tau> t = 0"
proof -
  have "exp (- (t / \<tau>)) \<le> underflow_threshold"
    using assms(2) by (intro exp_below_underflow) simp
  then have "flush (exp (- (t / \<tau>))) = 0" by (simp add: flush_def)
  then have "decay_factor \<tau> t = 0"
    using assms(2) one_in_range(1) by (simp add: decay_factor_def)
  then show ?thesis
    using underflow_threshold_pos by (simp add: decay_def flush_def)
qed

lemma decay_regular:
  assumes "1 / 2 ^ 1000 \<le> t / \<tau>" "t / \<tau> \<le> 600" "1 \<le> porosity"
  shows "decay porosity \<tau> t = of_int porosity * exp (- (t / \<tau>))"
proof -
  have "(600::real) \<le> 2 ^ 1023"
  proof -
    have "(600::real) \<le> 2 ^ 10" by simp
    also have "\<dots> \<le> 2 ^ 1023" by (rule power_increasing) simp_all
    finally show ?thesis .
  qed
  with assms(2) overflow_threshold_gt have a: "\<not> overflow_threshold \<le> t / \<tau>" by linarith
  have b: "\<not> t / \<tau> \<le> underflow_threshold"
    using assms(1) underflow_below_mid by linarith
  have e: "1 / 2 ^ 1000 \<le> exp (- (t / \<tau>))"
    using assms(2) by (intro exp_above_underflow) simp
  then have f: "decay_factor \<tau> t = exp (- (t / \<tau>))"
    using a b by (simp add: decay_factor_def flush_id)
  have "1 * exp (- (t / \<tau>)) \<le> real_of_int porosity * exp (- (t / \<tau>))"
    using assms(3) by (intro mult_right_mono) simp_all
  then have "exp (- (t / \<tau>)) \<le> real_of_int porosity * exp (- (t / \<tau>))"
    by (simp only: mult_1)
  with e have "1 / 2 ^ 1000 \<le> real_of_int porosity * exp (- (t / \<tau>))"
    by (rule order_trans)
  then show ?thesis
    unfolding decay_def f by (rule flush_id)
qed

subsection \<open>Parsing\<close>

lemmas parse_defs = py_float_def parse_decimal_def scale10_def parse_exponent_def digits_value_def
  parse_inf_or_nan_def split_sign_def to_lower_def digit_value_def is_digit_def py_strip_def
  is_space_def

lemma py_float_cases: "py_float s = Inl ValueError \<or> (\<exists>v. py_float s = Inr v)"
  by (simp add: py_float_def split: option.splits)

lemma float_each_ok:
  "list_all token_ok ts \<Longrightarrow> float_each ts = Inr (map token_value ts)"
  by (induction ts)
     (auto simp add: token_ok_def token_value_def and_then_def split: sum.splits)

lemma float_each_bad:
  "\<not> list_all token_ok ts \<Longrightarrow> float_each ts = Inl ValueError"
proof (induction ts)
  case Nil
  then show ?case by simp
next
  case (Cons t ts)
  show ?case
  proof (cases "token_ok t")
    case True
    with Cons show ?thesis
      by (auto simp add: token_ok_def and_then_def split: sum.splits)
  next
    case False
    then have "py_float (py_strip t) = Inl ValueError"
      using py_float_cases [of "py_strip t"] by (auto simp add: token_ok_def)
    then show ?thesis by (simp add: and_then_def)
  qed
qed

lemma parse_all_or_nothing:
  "slider_t2_values raw =
     (if list_all token_ok (py_split CHR '','' raw)
      then Inr (map token_value (py_split CHR '','' raw), [])
      else Inr (default_t2_values, [invalid_t2_message]))"
  by (simp add: slider_t2_values_def float_each_ok float_each_bad)

lemma empty_token_bad: "\<not> token_ok t" if "py_strip t = []"
proof -
  have "py_strip [] = []" by (simp add: py_strip_def)
  with that have "py_float (py_strip t) = Inl ValueError"
    by (simp add: py_float_def parse_inf_or_nan_def parse_decimal_def split_sign_def)
  then show ?thesis by (simp add: token_ok_def)
qed

section \<open>The claims\<close>

subsection \<open>Geometry\<close>

text \<open>
  C1, as stated: for every radius r > 0 the surface-to-volume ratio obtained from the area
  and the volume is 3 / r. At the positive radius \<open>2^-400\<close> the cube underflows to zero, the
  volume is zero and the guard returns the ratio 0; at \<open>2^400\<close> the cube overflows and
  \<open>radius**3\<close> raises \<open>OverflowError\<close>.
\<close>

theorem tiny_radius_counterexample:
  "(0::real) < 1 / 2 ^ 400
   \<and> geometry_ratio (Finite (1 / 2 ^ 400)) = Inr (Finite 0)
   \<and> (3::real) / (1 / 2 ^ 400) \<noteq> 0
   \<and> geometry_ratio (Finite (2 ^ 400)) = Inl OverflowError"
  using small_radius_ratio [of "1 / 2 ^ 400"] large_radius_raises(2) [of "2 ^ 400"]
  by simp

text \<open>
  C1, amended: for every radius r with \<open>2^-340 \<le> r \<le> 2^340\<close> (every intermediate value is
  then within the range of the normal doubles), the surface-to-volume ratio obtained by
  computing the area 4 pi r^2 and the volume (4/3) pi r^3 and dividing them is 3 / r, the
  closed form of the sphere; the division does not raise, and the calculation pass reports
  the same ratio for every relaxivity.
\<close>

theorem surface_to_volume_is_three_over_r:
  assumes "1 / 2 ^ 340 \<le> r" and "r \<le> 2 ^ 340"
  shows "geometry_ratio (Finite r) = Inr (Finite (3 / r))
       \<and> map_sum id surface_to_volume_ratio (calculate_parameters relaxivity (Finite r))
           = Inr (Finite (3 / r))"
proof -
  have "0 < r"
  proof -
    have "(0::real) < 1 / 2 ^ 340" by simp
    with assms(1) show ?thesis by linarith
  qed
  with assms have "1 / 2 ^ 340 \<le> \<bar>r\<bar>" "\<bar>r\<bar> \<le> 2 ^ 340" by simp_all
  then show ?thesis
    by (simp only: geometry_ratio_regular parameters_ratio simp_thms)
qed

theorem surface_to_volume_is_three_over_r_witness:
  "(1::real) / 2 ^ 340 \<le> 1 / 2 \<and> (1::real) / 2 \<le> 2 ^ 340
   \<and> geometry_ratio (Finite (1 / 2)) = Inr (Finite 6)
   \<and> map_sum id surface_to_volume_ratio (calculate_parameters (Finite (3 / 1000)) (Finite (1 / 2)))
       = Inr (Finite 6)"
  using surface_to_volume_is_three_over_r [of "1 / 2" "Finite (3 / 1000)"] by simp

text \<open>
  C6. For radius 0 the calculation raises nothing and returns surface area 0, volume 0
  and surface-to-volume ratio 0 (the division is guarded by the volume test), and the T2
  derived from that ratio is 0 for every relaxivity > 0, with no error message shown. The
  unit factor does not change a zero radius.
\<close>

theorem zero_radius_gives_zero_geometry_and_t2:
  assumes "py_positive relaxivity"
  shows "calculate_surface_area (Finite 0) = Inr (Finite 0)
       \<and> calculate_volume (Finite 0) = Inr (Finite 0)
       \<and> geometry_ratio (Finite 0) = Inr (Finite 0)
       \<and> calculate_t2 relaxivity (Finite 0) = Inr (Finite 0, [])
       \<and> calculate_parameters relaxivity (adjust_radius (Finite 0) radius_unit) =
           Inr \<lparr>surface_area = Finite 0, volume = Finite 0,
                surface_to_volume_ratio = Finite 0, t2 = Finite 0, errors_shown = []\<rparr>"
  by (simp add: surface_area_zero volume_zero t2_zero_ratio parameters_at_zero
      adjust_radius_zero geometry_ratio_def and_then_def ratio_zero_volume)

theorem zero_radius_gives_zero_geometry_and_t2_witness:
  "py_positive (Finite (3 / 1000))
   \<and> calculate_t2 (Finite (3 / 1000)) (Finite 0) = Inr (Finite 0, [])
   \<and> calculate_parameters (Finite (3 / 1000)) (adjust_radius (Finite 0) Micrometre) =
       Inr \<lparr>surface_area = Finite 0, volume = Finite 0,
            surface_to_volume_ratio = Finite 0, t2 = Finite 0, errors_shown = []\<rparr>"
  using zero_radius_gives_zero_geometry_and_t2 [of "Finite (3 / 1000)" Micrometre] by simp

text \<open>
  C9, as stated: for every radius < 0 the geometry computation fails with
  InvalidGeometryError. The code has no such check: at radius -1 the pass returns values.
\<close>

theorem negative_radius_counterexample:
  "calculate_parameters (Finite (3 / 1000)) (Finite (- 1)) =
     Inr \<lparr>surface_area = Finite (4 * pi), volume = Finite (- (4 / 3 * pi)),
          surface_to_volume_ratio = Finite (- 3), t2 = Finite (- (1000 / 9)),
          errors_shown = []\<rparr>"
  using parameters_regular [of "- 1" "3 / 1000"] by simp

text \<open>
  C9, amended: for every radius r < 0 with \<open>2^-340 \<le> |r| \<le> 2^340\<close> the geometry
  computation raises nothing; it returns the surface area 4 pi r^2, which is positive, the
  volume (4/3) pi r^3, which is negative, and the surface-to-volume ratio 3 / r, which is
  negative.
\<close>

theorem negative_radius_returns_values:
  assumes "- (2 ^ 340) \<le> r" and "r \<le> - (1 / 2 ^ 340)"
  shows "calculate_surface_area (Finite r) = Inr (Finite (4 * pi * r ^ 2))
       \<and> 0 < 4 * pi * r ^ 2
       \<and> calculate_volume (Finite r) = Inr (Finite (4 / 3 * pi * r ^ 3))
       \<and> 4 / 3 * pi * r ^ 3 < 0
       \<and> geometry_ratio (Finite r) = Inr (Finite (3 / r))
       \<and> 3 / r < 0"
proof -
  have neg: "r < 0"
  proof -
    have "- ((1::real) / 2 ^ 340) < 0" by simp
    with assms(2) show ?thesis by linarith
  qed
  with assms have rng: "1 / 2 ^ 340 \<le> \<bar>r\<bar>" "\<bar>r\<bar> \<le> 2 ^ 340" by simp_all
  have "0 < r * r" using neg by (simp add: mult_neg_neg)
  then have "r * r * r < 0" using neg by (rule mult_pos_neg)
  then have v: "4 / 3 * pi * r ^ 3 < 0"
    by (simp add: power3_eq_cube mult_pos_neg mult.assoc)
  have a: "0 < 4 * pi * r ^ 2" using neg by simp
  have q: "3 / r < 0" using neg by (simp add: divide_pos_neg)
  from a v q show ?thesis
    by (simp only: surface_area_regular [OF rng] volume_regular [OF rng]
        geometry_ratio_regular [OF rng] simp_thms)
qed

theorem negative_radius_returns_values_witness:
  "- (2 ^ 340) \<le> (- 1 :: real) \<and> (- 1 :: real) \<le> - (1 / 2 ^ 340)
   \<and> calculate_volume (Finite (- 1)) = Inr (Finite (- (4 / 3 * pi)))
   \<and> geometry_ratio (Finite (- 1)) = Inr (Finite (- 3))"
  using negative_radius_returns_values [of "- 1"] by simp

subsection \<open>T2 relaxation time\<close>

text \<open>
  C8, as stated: for every relaxivity \<le> 0, deriving T2 fails with InvalidParameterError.
  The code validates nothing: at relaxivity -0.003 and ratio 6 it returns a negative T2.
\<close>

theorem nonpositive_relaxivity_counterexample:
  "calculate_t2 (Finite (- (3 / 1000))) (Finite 6) = Inr (Finite (- (500 / 9)), [])"
  using t2_regular [of "- (3 / 1000)" 6] by simp

text \<open>
  C8, amended: for every relaxivity that is not above 0 and every surface-to-volume value,
  deriving T2 does not fail: a value is returned in every case. It is 0 when the ratio is 0;
  it is 0, together with the numerical-instability message, when the relaxivity is 0 and the
  ratio is finite and not 0; and it is 1 / (relaxivity * ratio), negative for a positive
  ratio, when the product relaxivity * ratio has a magnitude between \<open>2^-1000\<close> and
  \<open>2^1000\<close>.
\<close>

theorem nonpositive_relaxivity_returns_value:
  assumes "\<not> py_positive relaxivity"
  shows "(\<exists>v msgs. calculate_t2 relaxivity sv = Inr (v, msgs))
       \<and> calculate_t2 relaxivity (Finite 0) = Inr (Finite 0, [])
       \<and> (relaxivity = Finite 0 \<and> s \<noteq> 0 \<longrightarrow>
            calculate_t2 relaxivity (Finite s) = Inr (Finite 0, [instability_message]))
       \<and> (relaxivity = Finite q \<and> 1 / 2 ^ 1000 \<le> \<bar>q * s\<bar> \<and> \<bar>q * s\<bar> \<le> 2 ^ 1000 \<longrightarrow>
            calculate_t2 relaxivity (Finite s) = Inr (Finite (1 / (q * s)), [])
            \<and> (0 < s \<longrightarrow> 1 / (q * s) < 0))"
proof -
  have neg: "1 / (q * s) < 0"
    if "relaxivity = Finite q" "1 / 2 ^ 1000 \<le> \<bar>q * s\<bar>" "0 < s"
  proof -
    from that(1) assms have "q \<le> 0" by simp
    moreover from that(2) have "q * s \<noteq> 0" by auto
    ultimately have "q < 0" by (cases "q = 0") simp_all
    with that(3) have "q * s < 0" by (simp add: mult_neg_pos)
    then show ?thesis by simp
  qed
  show ?thesis
    using calculate_t2_total [of relaxivity sv] neg
    by (auto simp add: t2_zero_ratio t2_zero_relaxivity t2_regular)
qed

theorem nonpositive_relaxivity_returns_value_witness:
  "\<not> py_positive (Finite 0) \<and> \<not> py_positive (Finite (- (3 / 1000)))
   \<and> calculate_t2 (Finite 0) (Finite 6) = Inr (Finite 0, [instability_message])
   \<and> calculate_t2 (Finite (- (3 / 1000))) (Finite 6) = Inr (Finite (- (500 / 9)), [])
   \<and> calculate_t2 (Finite (- (3 / 1000))) (Finite 0) = Inr (Finite 0, [])"
  using nonpositive_relaxivity_returns_value [of "Finite 0" "Finite 6" 6 0]
    nonpositive_relaxivity_returns_value [of "Finite (- (3 / 1000))" "Finite 6" 6 "- (3 / 1000)"]
  by simp




text \<open>
  C3, as stated: with radii 1.0, 0.5 and 0.25, relaxivity 0.003, T2(0.25) = 4 * T2(1.0).
  The code gives T2(0.25) = 250/9 and T2(1.0) = 1000/9.
\<close>

theorem t2_quarter_radius_counterexample:
  "t2_tab2 (Finite (3 / 1000)) Micrometre (Finite (1 / 4)) = Inr (Finite (250 / 9))
   \<and> t2_tab2 (Finite (3 / 1000)) Micrometre (Finite 1) = Inr (Finite (1000 / 9))
   \<and> (250 / 9 :: real) \<noteq> 4 * (1000 / 9)"
  using parameters_regular [of "1 / 4" "3 / 1000"] parameters_regular [of 1 "3 / 1000"]
    adjust_radius_micrometre [of "1 / 4"] adjust_radius_micrometre [of 1]
  by (simp add: t2_tab2_def)

text \<open>
  C3, amended: with radii 1.0, 0.5 and 0.25, relaxivity 0.003, the three T2 values derived
  through the geometry pass are 1000/9, 500/9 and 250/9, so T2(1.0) = 4 * T2(0.25) and
  T2(0.5) = 2 * T2(0.25): T2 grows with the radius.
\<close>

theorem t2_proportional_to_radius:
  "t2_tab2 (Finite (3 / 1000)) Micrometre (Finite 1) = Inr (Finite (4 * (250 / 9)))
   \<and> t2_tab2 (Finite (3 / 1000)) Micrometre (Finite (1 / 2)) = Inr (Finite (2 * (250 / 9)))
   \<and> t2_tab2 (Finite (3 / 1000)) Micrometre (Finite (1 / 4)) = Inr (Finite (250 / 9))"
  using parameters_regular [of "1 / 4" "3 / 1000"] parameters_regular [of 1 "3 / 1000"]
    parameters_regular [of "1 / 2" "3 / 1000"]
    adjust_radius_micrometre [of "1 / 4"] adjust_radius_micrometre [of 1]
    adjust_radius_micrometre [of "1 / 2"]
  by (simp add: t2_tab2_def)

subsection \<open>Decay curve\<close>

text \<open>
  C5. For every T2 \<le> 0 (more generally whenever the test \<open>t2 > 0\<close> fails, which includes
  \<open>nan\<close>), every porosity and every grid, non-empty or not, the Mt list is computed without
  an exception, is all zero and has the length of the grid.
\<close>

theorem nonpositive_t2_gives_zero_curve:
  assumes "\<not> py_positive T2"
  shows "mt_values porosity T2 grid = Inr (replicate (length grid) (Finite 0))
       \<and> map_sum id length (mt_values porosity T2 grid) = Inr (length grid)"
  using assms by (simp add: mt_values_not_positive)

theorem nonpositive_t2_gives_zero_curve_witness:
  "\<not> py_positive (Finite 0) \<and> \<not> py_positive (Finite (- (500 / 9)))
   \<and> mt_values 30 (Finite 0) [Finite (1 / 2), Finite 1, Finite 2]
       = Inr [Finite 0, Finite 0, Finite 0]
   \<and> mt_values 30 (Finite (- (500 / 9))) [Finite (1 / 2), Finite 1, Finite 2]
       = Inr [Finite 0, Finite 0, Finite 0]"
  using nonpositive_t2_gives_zero_curve [of "Finite 0" 30 "[Finite (1 / 2), Finite 1, Finite 2]"]
    nonpositive_t2_gives_zero_curve
      [of "Finite (- (500 / 9))" 30 "[Finite (1 / 2), Finite 1, Finite 2]"]
  by (simp add: numeral_3_eq_3)

text \<open>
  C4, as stated: for every T2 > 0, every porosity and every strictly increasing grid of
  positive times the Mt list is strictly decreasing. At porosity 0, which the porosity
  sliders allow, the list is constant 0. At porosity 30 and T2 = 1/3 (relaxivity 0.01 and
  radius 0.01 on the sliders) the exponential underflows at the grid points 512 and 1024 of
  the default grid, and both entries are 0.
\<close>

theorem flat_curve_counterexample:
  "(0::real) < 1 \<and> strictly_increasing [1, 2] \<and> all_positive [1, 2]
   \<and> mt_values 0 (Finite 1) (map Finite [1, 2]) = Inr (map Finite [0, 0])
   \<and> (0::real) < 1 / 3 \<and> strictly_increasing [512, 1024] \<and> all_positive [512, 1024]
   \<and> mt_values 30 (Finite (1 / 3)) (map Finite [512, 1024]) = Inr (map Finite [0, 0])
   \<and> \<not> strictly_decreasing [0, 0]"
proof -
  have z: "decay 0 1 t = 0" for t
    using underflow_threshold_pos by (simp add: decay_def flush_def)
  have a: "mt_values 0 (Finite 1) (map Finite [1, 2]) = Inr (map Finite [0, 0])"
    using mt_values_finite [of 1 0 "[1, 2]"] by (simp add: all_positive_def z)
  have u: "decay 30 (1 / 3) 512 = 0" "decay 30 (1 / 3) 1024 = 0"
    by (rule decay_underflow; simp)+
  have b: "mt_values 30 (Finite (1 / 3)) (map Finite [512, 1024]) = Inr (map Finite [0, 0])"
    using mt_values_finite [of "1 / 3" 30 "[512, 1024]"] by (simp add: all_positive_def u)
  from a b show ?thesis
    by (simp add: strictly_increasing_def strictly_decreasing_def all_positive_def)
qed

text \<open>
  C4, amended: for every finite T2 > 0, every porosity from 0 to 100 and every strictly
  increasing grid of finite positive times, the Mt list is computed without an exception,
  never increases from one entry to the next, and every value lies in [0, porosity]. Where
  moreover the porosity is at least 1 and every quotient t[i] / T2 lies between \<open>2^-1000\<close>
  and 600, the entries are porosity * exp (- t[i] / T2).
\<close>

theorem decay_curve_never_increases:
  assumes "0 < \<tau>" and "0 \<le> porosity" and "porosity \<le> 100"
    and "strictly_increasing ts" and "all_positive ts"
  shows "(\<exists>ms. mt_values porosity (Finite \<tau>) (map Finite ts) = Inr (map Finite ms)
            \<and> length ms = length ts
            \<and> never_increasing ms
            \<and> all_within 0 (of_int porosity) ms)
       \<and> (1 \<le> porosity \<and> list_all (\<lambda>t. 1 / 2 ^ 1000 \<le> t / \<tau> \<and> t / \<tau> \<le> 600) ts \<longrightarrow>
            mt_values porosity (Finite \<tau>) (map Finite ts)
              = Inr (map (\<lambda>t. Finite (of_int porosity * exp (- (t / \<tau>)))) ts))"
proof -
  let ?ms = "map (decay porosity \<tau>) ts"
  have v: "mt_values porosity (Finite \<tau>) (map Finite ts) = Inr (map Finite ?ms)"
    using assms(1,2,3,5) by (rule mt_values_finite)
  have "never_increasing ?ms" using assms(1,2,4) by (rule decay_never_increasing)
  moreover have "all_within 0 (of_int porosity) ?ms" using assms(2) by (rule decay_all_within)
  moreover have "length ?ms = length ts" by simp
  ultimately have first: "\<exists>ms. mt_values porosity (Finite \<tau>) (map Finite ts) = Inr (map Finite ms)
            \<and> length ms = length ts \<and> never_increasing ms
            \<and> all_within 0 (of_int porosity) ms"
    using v by blast
  have second: "mt_values porosity (Finite \<tau>) (map Finite ts)
              = Inr (map (\<lambda>t. Finite (of_int porosity * exp (- (t / \<tau>)))) ts)"
    if "1 \<le> porosity" "list_all (\<lambda>t. 1 / 2 ^ 1000 \<le> t / \<tau> \<and> t / \<tau> \<le> 600) ts"
  proof -
    have "decay porosity \<tau> t = of_int porosity * exp (- (t / \<tau>))" if "t \<in> set ts" for t
      using that \<open>list_all _ ts\<close> \<open>1 \<le> porosity\<close>
      by (intro decay_regular) (simp_all add: list_all_iff)
    then have "map Finite ?ms = map (\<lambda>t. Finite (of_int porosity * exp (- (t / \<tau>)))) ts"
      by simp
    with v show ?thesis by simp
  qed
  from first second show ?thesis by blast
qed

theorem decay_curve_never_increases_witness:
  "(0::real) < 1 \<and> (0::int) \<le> 30 \<and> (30::int) \<le> 100
   \<and> strictly_increasing [1, 2] \<and> all_positive [1, 2]
   \<and> (1::int) \<le> 30 \<and> list_all (\<lambda>t. 1 / 2 ^ 1000 \<le> t / 1 \<and> t / 1 \<le> (600::real)) [1, 2]
   \<and> mt_values 30 (Finite 1) (map Finite [1, 2])
       = Inr [Finite (30 * exp (- 1)), Finite (30 * exp (- 2))]"
proof -
  have h: "(0::real) < 1" "(0::int) \<le> 30" "(30::int) \<le> 100"
    "strictly_increasing [1, 2]" "all_positive [1, 2]"
    by (simp_all add: strictly_increasing_def all_positive_def)
  have r: "(1::int) \<le> 30"
    "list_all (\<lambda>t. 1 / 2 ^ 1000 \<le> t / 1 \<and> t / 1 \<le> (600::real)) [1, 2]"
    by simp_all
  from decay_curve_never_increases [OF h] r
  have "mt_values 30 (Finite 1) (map Finite [1, 2])
        = Inr (map (\<lambda>t. Finite (of_int 30 * exp (- (t / 1)))) [1, 2])"
    by blast
  then show ?thesis using h r by simp
qed

subsection \<open>T2 list\<close>

text \<open>
  C7, as stated: any unparseable token, empty token or non-positive value makes the parse
  return the default grid. The code has no test on the sign of a value: the text
  \<open>-1, 2\<close> parses to the list -1, 2, which is not the default grid, and the unit factor
  leaves the value negative.
\<close>

theorem negative_t2_value_counterexample:
  "is_ascii_text ''-1, 2''
   \<and> slider_t2_values ''-1, 2'' = Inr ([Finite (- 1), Finite 2], [])
   \<and> [Finite (- 1), Finite 2] \<noteq> default_t2_values
   \<and> adjust_t2_values [Finite (- 1), Finite 2] Millisecond = [Finite (- 1), Finite 2]"
  by (simp add: slider_t2_values_def parse_defs default_t2_values_def adjust_t2_values_def
      and_then_def fl_modest is_ascii_text_def)

text \<open>
  C7, amended: parsing the T2 list is all-or-nothing. For every raw text of ASCII
  characters, if some token is unparseable or empty (after stripping whitespace) the parse
  returns exactly the 12-element default grid 0.5, 1, 2, ..., 1024 and shows the message;
  otherwise it returns the value of every token, in order, whatever its sign. It never
  returns a partially parsed list. In particular \<open>abc, 1, 2\<close> gives the default grid.
\<close>

theorem t2_list_parse_all_or_nothing:
  assumes "is_ascii_text raw"
  shows "slider_t2_values raw =
     (if list_all token_ok (py_split CHR '','' raw)
      then Inr (map token_value (py_split CHR '','' raw), [])
      else Inr (default_t2_values, [invalid_t2_message]))
   \<and> (py_strip t = [] \<longrightarrow> \<not> token_ok t)
   \<and> default_t2_values
       = map Finite [1 / 2, 1, 2, 4, 8, 16, 32, 64, 128, 256, 512, 1024]
   \<and> length default_t2_values = 12
   \<and> slider_t2_values ''abc, 1, 2'' = Inr (default_t2_values, [invalid_t2_message])"
proof -
  have "slider_t2_values ''abc, 1, 2'' = Inr (default_t2_values, [invalid_t2_message])"
    by (simp add: slider_t2_values_def parse_defs and_then_def)
  then show ?thesis
    using parse_all_or_nothing [of raw] empty_token_bad [of t]
    by (simp add: default_t2_values_def)
qed

theorem t2_list_parse_all_or_nothing_witness:
  "is_ascii_text ''1,  ,2'' \<and> is_ascii_text ''0.5, 1'' \<and> is_ascii_text ''1e309, -0''
   \<and> py_strip ''  '' = [] \<and> \<not> token_ok ''  ''
   \<and> slider_t2_values ''1,  ,2'' = Inr (default_t2_values, [invalid_t2_message])
   \<and> slider_t2_values ''0.5, 1'' = Inr ([Finite (1 / 2), Finite 1], [])
   \<and> slider_t2_values ''1e309, -0'' = Inr ([PosInf, Finite 0], [])"
proof -
  have a: "is_ascii_text ''1,  ,2''" "is_ascii_text ''0.5, 1''" "is_ascii_text ''1e309, -0''"
    by (simp_all add: is_ascii_text_def)
  have e: "py_strip ''  '' = []"
    by (simp add: py_strip_def is_space_def)
  have s: "py_split CHR '','' ''1,  ,2'' = [''1'', ''  '', ''2'']"
    by simp
  have bad: "\<not> token_ok ''  ''"
    using t2_list_parse_all_or_nothing [OF a(1), of "''  ''"] e by simp
  have "slider_t2_values ''1,  ,2'' = Inr (default_t2_values, [invalid_t2_message])"
    using t2_list_parse_all_or_nothing [OF a(1), of "[]"] bad s by simp
  moreover have "slider_t2_values ''0.5, 1'' = Inr ([Finite (1 / 2), Finite 1], [])"
    using t2_list_parse_all_or_nothing [OF a(2), of "[]"]
    by (simp add: token_ok_def token_value_def parse_defs fl_modest)
  moreover have "slider_t2_values ''1e309, -0'' = Inr ([PosInf, Finite 0], [])"
  proof -
    have big: "fl (10 ^ 309) = PosInf"
    proof -
      have "(2::real) ^ 1024 \<le> 10 ^ 309" by simp
      with overflow_threshold_lt have "overflow_threshold \<le> 10 ^ 309" by linarith
      then show ?thesis by (simp only: fl_def if_True)
    qed
    have t1: "py_float (py_strip ''1e309'') = Inr PosInf"
      using big by (simp add: parse_defs)
    have t2: "py_float (py_strip '' -0'') = Inr (Finite 0)"
      by (simp add: parse_defs fl_zero)
    have sp: "py_split CHR '','' ''1e309, -0'' = [''1e309'', '' -0'']" by simp
    show ?thesis
      using t2_list_parse_all_or_nothing [OF a(3), of "[]"] t1 t2
      by (simp only: sp) (simp add: token_ok_def token_value_def)
  qed
  ultimately show ?thesis using a e bad by simp
qed

subsection \<open>End-to-end scenario\<close>

text \<open>
  C2. With relaxivity 0.003, radius 0.5 (unit factor 1) the calculation pass gives the
  surface-to-volume ratio 6 and T2 = 1 / (0.003 * 6), which is 55.5556 to four decimals.
  With porosity 30 the Mt value at the grid point t = T2 is 30 * exp (-1), which is 11.036 to
  three decimals; so is the Mt value at the grid point written as 55.5556.
\<close>

theorem end_to_end_default_scenario:
  "calculate_parameters (Finite (3 / 1000)) (adjust_radius (Finite (1 / 2)) Micrometre)
     = Inr \<lparr>surface_area = Finite pi, volume = Finite (pi / 6),
            surface_to_volume_ratio = Finite 6, t2 = Finite (1 / (3 / 1000 * 6)),
            errors_shown = []\<rparr>
   \<and> \<bar>1 / (3 / 1000 * 6) - 555556 / 10000\<bar> < (5 / 100000 :: real)
   \<and> mt_values 30 (Finite (1 / (3 / 1000 * 6))) [Finite (1 / (3 / 1000 * 6))]
       = Inr [Finite (30 * exp (- 1))]
   \<and> \<bar>30 * exp (- 1) - 11036 / 1000\<bar> < (5 / 10000 :: real)
   \<and> mt_values 30 (Finite (1 / (3 / 1000 * 6))) [Finite (555556 / 10000)]
       = Inr [Finite (30 * exp (- (1250001 / 1250000)))]
   \<and> \<bar>30 * exp (- (1250001 / 1250000)) - 11036 / 1000\<bar> < (5 / 10000 :: real)"
proof -
  have p: "calculate_parameters (Finite (3 / 1000)) (adjust_radius (Finite (1 / 2)) Micrometre)
     = Inr \<lparr>surface_area = Finite pi, volume = Finite (pi / 6),
            surface_to_volume_ratio = Finite 6, t2 = Finite (1 / (3 / 1000 * 6)),
            errors_shown = []\<rparr>"
    using parameters_regular [of "1 / 2" "3 / 1000"] adjust_radius_micrometre [of "1 / 2"]
    by (simp add: power2_eq_square power3_eq_cube)
  have a: "\<bar>1 / (3 / 1000 * 6) - 555556 / 10000\<bar> < (5 / 100000 :: real)"
    by simp
  have d1: "decay 30 (500 / 9) (500 / 9) = 30 * exp (- 1)"
    using decay_regular [of "500 / 9" "500 / 9" 30] by simp
  have m1: "mt_values 30 (Finite (1 / (3 / 1000 * 6))) [Finite (1 / (3 / 1000 * 6))]
       = Inr [Finite (30 * exp (- 1))]"
    using mt_values_finite [of "500 / 9" 30 "[500 / 9]"] d1
    by (simp add: all_positive_def)
  have d2: "decay 30 (500 / 9) (555556 / 10000) = 30 * exp (- (1250001 / 1250000))"
    using decay_regular [of "555556 / 10000" "500 / 9" 30] by simp
  have m2: "mt_values 30 (Finite (1 / (3 / 1000 * 6))) [Finite (555556 / 10000)]
       = Inr [Finite (30 * exp (- (1250001 / 1250000)))]"
    using mt_values_finite [of "500 / 9" 30 "[555556 / 10000]"] d2
    by (simp add: all_positive_def)
  have b1: "\<bar>30 * exp (- 1) - 11036 / 1000\<bar> < (5 / 10000 :: real)"
    using exp_minus_one_bounds by (simp add: abs_less_iff)
  have b2: "\<bar>30 * exp (- (1250001 / 1250000)) - 11036 / 1000\<bar> < (5 / 10000 :: real)"
    using exp_near_minus_one_bounds by (simp add: abs_less_iff)
  from p a m1 m2 b1 b2 show ?thesis by blast
qed

end
